theory Spec2Isabelle
  imports Complex_Main "HOL-Library.Sublist"
begin

section \<open>The dataset table\<close>

text \<open>
  The script \<^verbatim>\<open>marketing.py\<close> works on one pandas DataFrame. A cell of the frame is a
  string, a number or the missing marker (pandas' NaN). A number is a \<open>real\<close>; the
  arithmetic of the Reporter is done in 64-bit floating point (\<open>float64\<close> below), the
  correlation coefficients are modelled in exact arithmetic. The frame is a list of
  column names and a list of rows; \<^verbatim>\<open>read_csv\<close> always produces a rectangular frame, which \<open>wf_table\<close>
  records. Boolean and date columns are outside the model.
\<close>

datatype cell = Str string | Num real | NaN

datatype error = KeyError string | ValueError string | TypeError string

record table =
  columns :: "string list"
  rows :: "cell list list"

definition wf_table :: "table \<Rightarrow> bool" where
  "wf_table t = list_all (\<lambda>r. length r = length (columns t)) (rows t)"

fun index_of :: "string \<Rightarrow> string list \<Rightarrow> nat option" where
  "index_of c [] = None"
| "index_of c (x # xs) =
     (if x = c then Some 0 else map_option Suc (index_of c xs))"

text \<open>\<^verbatim>\<open>df[c]\<close>: the column named \<open>c\<close>, or KeyError.\<close>

definition get_col :: "table \<Rightarrow> string \<Rightarrow> error + cell list" where
  "get_col t c =
     (case index_of c (columns t) of
        None \<Rightarrow> Inl (KeyError c)
      | Some i \<Rightarrow> Inr (map (\<lambda>r. r ! i) (rows t)))"

text \<open>\<^verbatim>\<open>df[c] = s\<close>: an existing column is overwritten in place, a new one is appended.\<close>

definition set_col :: "table \<Rightarrow> string \<Rightarrow> cell list \<Rightarrow> table" where
  "set_col t c vs =
     (case index_of c (columns t) of
        None \<Rightarrow> t\<lparr>columns := columns t @ [c], rows := map2 (\<lambda>r v. r @ [v]) (rows t) vs\<rparr>
      | Some i \<Rightarrow> t\<lparr>rows := map2 (\<lambda>r v. r[i := v]) (rows t) vs\<rparr>)"

fun is_str :: "cell \<Rightarrow> bool" where
  "is_str (Str s) = True"
| "is_str c = False"

text \<open>
  dtypes. A column read from a CSV file is numeric when it holds no string. A frame
  without rows has only \<^verbatim>\<open>object\<close> columns when it is read; what dtypes it has after the
  recoding is not modelled, and the statements about numeric columns are about frames
  with at least one row.
\<close>

definition is_number :: "cell list \<Rightarrow> bool" where
  "is_number s = list_all (\<lambda>c. \<not> is_str c) s"

definition has_object :: "table \<Rightarrow> bool" where
  "has_object t = (rows t = [] \<or> list_ex (\<lambda>r. list_ex is_str r) (rows t))"

section \<open>Output of the script\<close>

text \<open>
  What the run prints and shows, in order. \<open>Print\<close> carries the text of a \<^verbatim>\<open>print\<close> call;
  \<open>Dump\<close> stands for a pandas rendering (\<^verbatim>\<open>head\<close>, \<^verbatim>\<open>info\<close>, \<^verbatim>\<open>describe\<close>) whose text is not
  modelled; \<open>Show\<close> is one \<^verbatim>\<open>plt.show()\<close>. A chart is described by its seaborn call and its
  title; the pixels are not modelled, and a rendering is taken to succeed once the
  columns it reads exist.
\<close>

datatype plot =
    CountPlot string
  | HistPlot string nat
  | CountPlotH string "string option"
  | BoxPlot string string
  | Heatmap "string list" "real option list list" "string option list list"

record chart =
  plot :: plot
  title :: string

datatype event = Print string | Dump string | Show chart

type_synonym stage_result = "event list \<times> (error + table)"

definition then_stage :: "stage_result \<Rightarrow> (table \<Rightarrow> stage_result) \<Rightarrow> stage_result" where
  "then_stage m f =
     (case m of
        (es, Inl e) \<Rightarrow> (es, Inl e)
      | (es, Inr t) \<Rightarrow> (case f t of (es', r) \<Rightarrow> (es @ es', r)))"

definition nl :: "string \<Rightarrow> string" where
  "nl s = CHR 0x0A # s"

definition digit :: "nat \<Rightarrow> char" where
  "digit n = ''0123456789'' ! n"

fun dec :: "nat \<Rightarrow> string" where
  "dec n = (if n < 10 then [digit n] else dec (n div 10) @ [digit (n mod 10)])"

declare dec.simps [simp del]

text \<open>
  \<^verbatim>\<open>f"{x:.2f}"\<close>: two decimals, the nearest hundredth, a tie going to the even digit; the
  sign is printed for every negative value.
\<close>

definition round_half_even :: "real \<Rightarrow> int" where
  "round_half_even x =
     (let f = \<lfloor>x\<rfloor>; d = x - of_int f
      in if d < 1 / 2 then f else if 1 / 2 < d then f + 1 else if even f then f else f + 1)"

definition fmt2 :: "real \<Rightarrow> string" where
  "fmt2 x =
     (let h = nat (round_half_even (\<bar>x\<bar> * 100))
      in (if x < 0 then ''-'' else []) @ dec (h div 100) @ ''.'' @
         [digit (h mod 100 div 10), digit (h mod 10)])"

section \<open>Inspector (lines 27 to 53)\<close>

text \<open>
  \<^verbatim>\<open>df.duplicated()\<close> marks a row that equals an earlier row in every column (two missing
  cells count as equal); \<^verbatim>\<open>df.drop_duplicates()\<close> keeps the rows that are not marked.
\<close>

fun duplicated_from :: "cell list list \<Rightarrow> cell list list \<Rightarrow> bool list" where
  "duplicated_from seen [] = []"
| "duplicated_from seen (r # rs) = (r \<in> set seen) # duplicated_from (seen @ [r]) rs"

definition duplicated :: "table \<Rightarrow> bool list" where
  "duplicated t = duplicated_from [] (rows t)"

text \<open>\<^verbatim>\<open>df[~mask]\<close>: the rows whose mark is False, in their order.\<close>

definition unmarked :: "cell list list \<Rightarrow> bool list \<Rightarrow> cell list list" where
  "unmarked rs ds = map fst (filter (\<lambda>(r, d). \<not> d) (zip rs ds))"

abbreviation kept :: "cell list list \<Rightarrow> cell list list \<Rightarrow> cell list list" where
  "kept seen rs \<equiv> unmarked rs (duplicated_from seen rs)"

definition drop_duplicates :: "table \<Rightarrow> table" where
  "drop_duplicates t = t\<lparr>rows := unmarked (rows t) (duplicated t)\<rparr>"

text \<open>Lines 49 to 53.\<close>

definition remove_duplicates :: "table \<Rightarrow> event list \<times> table" where
  "remove_duplicates t =
     (let n = length (filter (\<lambda>d. d) (duplicated t))
      in if 0 < n
         then ([Print (nl ''Number of duplicate rows: '' @ dec n),
                Print ''Duplicate rows have been removed.''], drop_duplicates t)
         else ([Print (nl ''Number of duplicate rows: '' @ dec n)], t))"

text \<open>
  Lines 27 to 53. \<^verbatim>\<open>df.describe(include='object')\<close> raises ValueError on a frame that has
  no \<^verbatim>\<open>object\<close> column.
\<close>

definition inspector :: "table \<Rightarrow> stage_result" where
  "inspector t =
     (let es = [Print (nl ''## Initial Data Inspection''),
                Print ''First 5 rows of the dataset:'',
                Dump ''df.head()'',
                Print (nl ''Dataset has '' @ dec (length (rows t)) @ '' rows and '' @
                         dec (length (columns t)) @ '' columns.''),
                Print (nl ''DataFrame Info:''),
                Dump ''df.info()'',
                Print (nl ''Descriptive Statistics for Numerical Columns:''),
                Dump ''df.describe()'',
                Print (nl ''Descriptive Statistics for Categorical Columns:'')]
      in if \<not> has_object t then (es, Inl (ValueError ''No objects to concatenate''))
         else (case remove_duplicates t of
                 (es', t') \<Rightarrow> (es @ [Dump ''df.describe(include=object)''] @ es', Inr t')))"

section \<open>Cleaner (lines 55 to 64)\<close>

text \<open>\<^verbatim>\<open>Series.replace(old, new)\<close>: whole values equal to \<open>old\<close> become \<open>new\<close>.\<close>

definition series_replace :: "cell \<Rightarrow> cell \<Rightarrow> cell list \<Rightarrow> cell list" where
  "series_replace old new s = map (\<lambda>c. if c = old then new else c) s"

text \<open>\<^verbatim>\<open>Series.map(dict)\<close>: a strict lookup; a value that is not a key becomes NaN.\<close>

definition series_map :: "(cell \<rightharpoonup> cell) \<Rightarrow> cell list \<Rightarrow> cell list" where
  "series_map d s = map (\<lambda>c. case d c of None \<Rightarrow> NaN | Some v \<Rightarrow> v) s"

definition y_dict :: "cell \<rightharpoonup> cell" where
  "y_dict = [Str ''yes'' \<mapsto> Num 1, Str ''no'' \<mapsto> Num 0]"

definition cleaner :: "table \<Rightarrow> error + table" where
  "cleaner t =
     (case get_col t ''poutcome'' of
        Inl e \<Rightarrow> Inl e
      | Inr p \<Rightarrow>
          let t1 = set_col t ''poutcome''
                     (series_replace (Str ''nonexistent'') (Str ''no_previous_campaign'') p)
          in (case get_col t1 ''y'' of
                Inl e \<Rightarrow> Inl e
              | Inr y \<Rightarrow> Inr (set_col t1 ''y'' (series_map y_dict y))))"

definition cleaner_stage :: "table \<Rightarrow> stage_result" where
  "cleaner_stage t =
     (case cleaner t of
        Inl e \<Rightarrow> ([Print (nl ''## Data Cleaning and Preprocessing'')], Inl e)
      | Inr t' \<Rightarrow>
          ([Print (nl ''## Data Cleaning and Preprocessing''),
            Print (nl ''Target variable 'y' has been mapped to 1 (yes) and 0 (no).'')],
           Inr t'))"

section \<open>Visualizer (lines 66 to 136)\<close>

text \<open>
  \<^verbatim>\<open>DataFrame.corr()\<close>: Pearson's coefficient over the rows where both columns hold a
  number; NaN (here \<open>None\<close>) when there is no such row or when the divisor is zero.
\<close>

fun pairs :: "cell list \<Rightarrow> cell list \<Rightarrow> (real \<times> real) list" where
  "pairs (Num a # xs) (Num b # ys) = (a, b) # pairs xs ys"
| "pairs (x # xs) (y # ys) = pairs xs ys"
| "pairs xs ys = []"

definition mean :: "real list \<Rightarrow> real" where
  "mean xs = sum_list xs / real (length xs)"

definition pearson :: "cell list \<Rightarrow> cell list \<Rightarrow> real option" where
  "pearson xs ys =
     (let ps = pairs xs ys; ma = mean (map fst ps); mb = mean (map snd ps);
          covxy = (\<Sum>(a, b)\<leftarrow>ps. (a - ma) * (b - mb));
          ssqdmx = (\<Sum>(a, b)\<leftarrow>ps. (a - ma) * (a - ma));
          ssqdmy = (\<Sum>(a, b)\<leftarrow>ps. (b - mb) * (b - mb));
          divisor = sqrt (ssqdmx * ssqdmy)
      in if ps = [] then None
         else if divisor \<noteq> 0 then Some (covxy / divisor) else None)"

definition column :: "table \<Rightarrow> string \<Rightarrow> cell list" where
  "column t c = (case get_col t c of Inl e \<Rightarrow> [] | Inr s \<Rightarrow> s)"

text \<open>\<^verbatim>\<open>df.select_dtypes(include=np.number).columns.tolist()\<close>\<close>

definition numerical_cols :: "table \<Rightarrow> string list" where
  "numerical_cols t = filter (\<lambda>c. is_number (column t c)) (columns t)"

definition correlation_matrix :: "table \<Rightarrow> real option list list" where
  "correlation_matrix t =
     map (\<lambda>a. map (\<lambda>b. pearson (column t a) (column t b)) (numerical_cols t))
       (numerical_cols t)"

text \<open>\<^verbatim>\<open>annot=True, fmt=".2f"\<close>: a cell that holds a number is annotated, a NaN cell is blank.\<close>

definition annotations :: "real option list list \<Rightarrow> string option list list" where
  "annotations m = map (map (map_option fmt2)) m"

definition chart_target :: "table \<Rightarrow> error + chart" where
  "chart_target t =
     (if ''y'' \<in> set (columns t)
      then Inr \<lparr>plot = CountPlot ''y'',
                title = ''Distribution of the Target Variable (Subscribed to Term Deposit)''\<rparr>
      else Inl (ValueError ''y''))"

definition chart_age :: "table \<Rightarrow> error + chart" where
  "chart_age t =
     (case get_col t ''age'' of
        Inl e \<Rightarrow> Inl e
      | Inr s \<Rightarrow> Inr \<lparr>plot = HistPlot ''age'' 30, title = ''Distribution of Age''\<rparr>)"

definition chart_job :: "table \<Rightarrow> error + chart" where
  "chart_job t =
     (case get_col t ''job'' of
        Inl e \<Rightarrow> Inl e
      | Inr s \<Rightarrow> Inr \<lparr>plot = CountPlotH ''job'' None,
                      title = ''Distribution of Job Categories''\<rparr>)"

definition chart_age_by_target :: "table \<Rightarrow> error + chart" where
  "chart_age_by_target t =
     (if ''y'' \<in> set (columns t) \<and> ''age'' \<in> set (columns t)
      then Inr \<lparr>plot = BoxPlot ''y'' ''age'',
                title = ''Age Distribution by Subscription Status''\<rparr>
      else Inl (ValueError ''age''))"

definition chart_job_by_target :: "table \<Rightarrow> error + chart" where
  "chart_job_by_target t =
     (case get_col t ''job'' of
        Inl e \<Rightarrow> Inl e
      | Inr s \<Rightarrow>
          if ''y'' \<in> set (columns t)
          then Inr \<lparr>plot = CountPlotH ''job'' (Some ''y''),
                    title = ''Subscription Status by Job Category''\<rparr>
          else Inl (ValueError ''y''))"

definition chart_heatmap :: "table \<Rightarrow> error + chart" where
  "chart_heatmap t =
     (if numerical_cols t = [] then Inl (ValueError ''zero-size array'')
      else Inr \<lparr>plot = Heatmap (numerical_cols t) (correlation_matrix t)
                         (annotations (correlation_matrix t)),
                title = ''Correlation Heatmap of Numerical Features''\<rparr>)"

definition chart_duration_by_target :: "table \<Rightarrow> error + chart" where
  "chart_duration_by_target t =
     (if ''y'' \<in> set (columns t) \<and> ''duration'' \<in> set (columns t)
      then Inr \<lparr>plot = BoxPlot ''y'' ''duration'',
                title = ''Call Duration by Subscription Status''\<rparr>
      else Inl (ValueError ''duration''))"

text \<open>
  A cleaned frame that matches the schema the Visualizer relies on: at least one row,
  the columns it reads, numbers in \<^verbatim>\<open>age\<close> and \<^verbatim>\<open>duration\<close>, and a recoded \<^verbatim>\<open>y\<close>.
\<close>

definition valid_cleaned :: "table \<Rightarrow> bool" where
  "valid_cleaned t =
     (wf_table t \<and> rows t \<noteq> [] \<and>
      set [''age'', ''job'', ''duration'', ''y''] \<subseteq> set (columns t) \<and>
      is_number (column t ''age'') \<and> is_number (column t ''duration'') \<and>
      set (column t ''y'') \<subseteq> {Num 0, Num 1, NaN})"

text \<open>
  A sequence of output steps: each one prints or shows something, or raises; the first
  one that raises ends the sequence.
\<close>

fun run_steps :: "(error + event) list \<Rightarrow> event list \<times> error option" where
  "run_steps [] = ([], None)"
| "run_steps (Inl e # ss) = ([], Some e)"
| "run_steps (Inr ev # ss) = (case run_steps ss of (es, r) \<Rightarrow> (ev # es, r))"

definition show_chart :: "error + chart \<Rightarrow> error + event" where
  "show_chart c = (case c of Inl e \<Rightarrow> Inl e | Inr ch \<Rightarrow> Inr (Show ch))"

definition read_only :: "table \<Rightarrow> event list \<times> error option \<Rightarrow> stage_result" where
  "read_only t r = (case r of (es, None) \<Rightarrow> (es, Inr t) | (es, Some e) \<Rightarrow> (es, Inl e))"

definition visualizer :: "table \<Rightarrow> stage_result" where
  "visualizer t =
     read_only t (run_steps
       [Inr (Print (nl ''## Univariate Analysis'')),
        Inr (Print ''Visualizing the distribution of key variables.''),
        show_chart (chart_target t),
        show_chart (chart_age t),
        show_chart (chart_job t),
        Inr (Print (nl ''## Bivariate and Multivariate Analysis'')),
        Inr (Print ''Exploring relationships between variables.''),
        show_chart (chart_age_by_target t),
        show_chart (chart_job_by_target t),
        show_chart (chart_heatmap t),
        show_chart (chart_duration_by_target t)])"

fun shown :: "event list \<Rightarrow> chart list" where
  "shown [] = []"
| "shown (Show c # es) = c # shown es"
| "shown (e # es) = shown es"

section \<open>Reporter (lines 138 to 149)\<close>

text \<open>
  \<^verbatim>\<open>Series.value_counts()\<close>: the count of every value that occurs, the missing marker left
  out, indexed by the value; \<^verbatim>\<open>[1]\<close> looks the label 1 up and raises KeyError when it does
  not occur. \<^verbatim>\<open>Series.mean()\<close> skips the missing cells, and is NaN when nothing is left. Line
  142 multiplies the mean by 100 and formats the product, both as 64-bit floats.
\<close>

definition value_counts :: "cell list \<Rightarrow> (cell \<rightharpoonup> nat)" where
  "value_counts s v = (if v \<noteq> NaN \<and> v \<in> set s then Some (count_list s v) else None)"

fun nums :: "cell list \<Rightarrow> real list" where
  "nums [] = []"
| "nums (Num x # s) = x # nums s"
| "nums (c # s) = nums s"

text \<open>
  IEEE 754 binary64, round to nearest, ties to even: a value is rounded to a multiple of
  the unit in its last place, \<open>2\<close> to the power \<open>e - 52\<close> for a value between \<open>2\<close> to the \<open>e\<close>
  and \<open>2\<close> to the \<open>e + 1\<close>, and \<open>2\<close> to the \<open>- 1074\<close> in the subnormal range. Overflow to
  infinity is not modelled; no value of the Reporter is larger than 100.
\<close>

definition pow2 :: "int \<Rightarrow> real" where
  "pow2 q = (if 0 \<le> q then 2 ^ nat q else 1 / 2 ^ nat (- q))"

definition float64 :: "real \<Rightarrow> real" where
  "float64 x =
     (if x = 0 then 0
      else let q = max (\<lfloor>log 2 \<bar>x\<bar>\<rfloor> - 52) (- 1074)
           in sgn x * real_of_int (round_half_even (\<bar>x\<bar> / pow2 q)) * pow2 q)"

text \<open>
  The sum of a float column, one rounded addition after the other. numpy adds in another
  order; on a column of zeros and ones every partial sum is a whole number and exact in
  any order.
\<close>

definition float_sum :: "real list \<Rightarrow> real" where
  "float_sum xs = foldl (\<lambda>a x. float64 (a + x)) 0 xs"

text \<open>\<^verbatim>\<open>Series.mean()\<close>: the float sum of the cells that are not missing over their count.\<close>

definition series_mean :: "cell list \<Rightarrow> error + real option" where
  "series_mean s =
     (if list_ex is_str s then Inl (TypeError ''mean'')
      else if nums s = [] then Inr None
      else Inr (Some (float64 (float_sum (nums s) / float64 (real (length (nums s)))))))"

definition fmt2_nan :: "real option \<Rightarrow> string" where
  "fmt2_nan x = (case x of None \<Rightarrow> ''nan'' | Some v \<Rightarrow> fmt2 v)"

definition statement1_text :: "nat \<Rightarrow> string \<Rightarrow> string" where
  "statement1_text n p =
     ''1. A total of '' @ dec n @
     '' clients subscribed to the term deposit, which is about '' @ p @ ''% of the dataset.''"

definition statement1 :: "table \<Rightarrow> error + string" where
  "statement1 t =
     (case get_col t ''y'' of
        Inl e \<Rightarrow> Inl e
      | Inr y \<Rightarrow>
          (case value_counts y (Num 1) of
             None \<Rightarrow> Inl (KeyError ''1'')
           | Some n \<Rightarrow>
               (case series_mean y of
                  Inl e \<Rightarrow> Inl e
                | Inr m \<Rightarrow>
                    Inr (statement1_text n
                           (fmt2_nan (map_option (\<lambda>v. float64 (v * 100)) m))))))"

definition statement2 :: string where
  "statement2 = ''2. The average age of subscribed clients is slightly higher than non-subscribed clients.''"

definition statement3 :: string where
  "statement3 = ''3. Job categories like 'student' and 'retired' have a higher subscription rate relative to their total numbers.''"

definition statement4 :: string where
  "statement4 = ''4. There's a strong positive correlation between 'euribor3m' and 'emp.var.rate', which suggests they are related economic indicators. This can be important for feature selection.''"

definition statement5 :: string where
  "statement5 = ''5. The 'duration' of the last contact is a highly predictive feature for the outcome. Clients with longer calls were much more likely to subscribe. However, this is for analysis only and should not be used in a predictive model as it's a look-ahead variable.''"

definition print_text :: "error + string \<Rightarrow> error + event" where
  "print_text s = (case s of Inl e \<Rightarrow> Inl e | Inr x \<Rightarrow> Inr (Print x))"

definition reporter :: "table \<Rightarrow> stage_result" where
  "reporter t =
     read_only t (run_steps
       [Inr (Print (nl ''## Key Insights from EDA'')),
        Inr (Print ''Based on the analysis, here are some key findings:''),
        print_text (statement1 t),
        Inr (Print statement2),
        Inr (Print statement3),
        Inr (Print statement4),
        Inr (Print statement5)])"

section \<open>Loader and the whole run (lines 14 to 25)\<close>

text \<open>
  The working directory is a map from file names to the frames \<^verbatim>\<open>read_csv\<close> parses them
  to. A run ends by falling off the end of the script, by \<^verbatim>\<open>exit()\<close> (SystemExit with the
  code it was given, here none) or by an uncaught exception. The interpreter's exit
  status is 0 for the first, the given code (0 when none is given) for the second and 1
  for the third. The last character of the message of line 25, an emoji, is left out.
\<close>

datatype outcome = Completed | SystemExit "int option" | Uncaught error

fun exit_status :: "outcome \<Rightarrow> int" where
  "exit_status Completed = 0"
| "exit_status (SystemExit None) = 0"
| "exit_status (SystemExit (Some n)) = n"
| "exit_status (Uncaught e) = 1"

definition csv_name :: string where
  "csv_name = ''bank-additional-full.csv''"

definition missing_file_message :: string where
  "missing_file_message = ''Error: The 'bank-additional-full.csv' file was not found. Please download the dataset from the UCI Machine Learning Repository and place it in the same directory.''"

definition download_link :: string where
  "download_link = ''https://archive.ics.uci.edu/ml/machine-learning-databases/00222/bank-additional.zip''"

definition analysis :: "table \<Rightarrow> stage_result" where
  "analysis df =
     then_stage (then_stage (then_stage (inspector df) cleaner_stage) visualizer) reporter"

definition main :: "(string \<rightharpoonup> table) \<Rightarrow> event list \<times> outcome" where
  "main fs =
     (case fs csv_name of
        None \<Rightarrow>
          ([Print missing_file_message, Print (''Link: '' @ download_link)], SystemExit None)
      | Some df \<Rightarrow>
          (case analysis df of
             (es, Inl e) \<Rightarrow>
               (Print ''Dataset loaded successfully! Let's get started with EDA. '' # es,
                Uncaught e)
           | (es, Inr t) \<Rightarrow>
               (Print ''Dataset loaded successfully! Let's get started with EDA. '' # es,
                Completed)))"

section \<open>Sample frames\<close>

definition sample :: table where
  "sample =
     \<lparr>columns = [''age'', ''job'', ''poutcome'', ''duration'', ''y''],
      rows = [[Num 30, Str ''admin.'', Str ''nonexistent'', Num 100, Str ''yes''],
              [Num 41, Str ''retired'', Str ''success'', Num 250, Str ''no''],
              [Num 41, Str ''retired'', Str ''success'', Num 250, Str ''no''],
              [Num 52, Str ''student'', Str ''failure'', Num 90, Str ''unknown'']]\<rparr>"

text \<open>The frame \<open>sample\<close> after the Inspector and the Cleaner.\<close>

definition sample_cleaned :: table where
  "sample_cleaned =
     \<lparr>columns = [''age'', ''job'', ''poutcome'', ''duration'', ''y''],
      rows = [[Num 30, Str ''admin.'', Str ''no_previous_campaign'', Num 100, Num 1],
              [Num 41, Str ''retired'', Str ''success'', Num 250, Num 0],
              [Num 52, Str ''student'', Str ''failure'', Num 90, NaN]]\<rparr>"

text \<open>
  Cleaned frames: no subscriber; two rows, one subscriber; one missing label; ten rows
  with three subscribers.
\<close>

definition no_subscriber :: table where
  "no_subscriber =
     \<lparr>columns = [''age'', ''job'', ''poutcome'', ''duration'', ''y''],
      rows = [[Num 30, Str ''admin.'', Str ''no_previous_campaign'', Num 100, Num 0],
              [Num 41, Str ''retired'', Str ''success'', Num 250, Num 0]]\<rparr>"

definition two_rows :: table where
  "two_rows =
     \<lparr>columns = [''age'', ''job'', ''poutcome'', ''duration'', ''y''],
      rows = [[Num 30, Str ''admin.'', Str ''no_previous_campaign'', Num 100, Num 1],
              [Num 41, Str ''retired'', Str ''success'', Num 250, Num 0]]\<rparr>"

definition one_missing :: table where
  "one_missing =
     \<lparr>columns = [''age'', ''job'', ''poutcome'', ''duration'', ''y''],
      rows = [[Num 30, Str ''admin.'', Str ''no_previous_campaign'', Num 100, Num 1],
              [Num 41, Str ''retired'', Str ''success'', Num 250, NaN]]\<rparr>"

definition ten_rows :: table where
  "ten_rows =
     \<lparr>columns = [''age'', ''job'', ''poutcome'', ''duration'', ''y''],
      rows = [[Num 30, Str ''admin.'', Str ''no_previous_campaign'', Num 100, Num 1],
              [Num 31, Str ''admin.'', Str ''no_previous_campaign'', Num 110, Num 0],
              [Num 32, Str ''retired'', Str ''success'', Num 120, Num 0],
              [Num 33, Str ''student'', Str ''failure'', Num 130, Num 1],
              [Num 34, Str ''admin.'', Str ''no_previous_campaign'', Num 140, Num 0],
              [Num 35, Str ''services'', Str ''no_previous_campaign'', Num 150, Num 0],
              [Num 36, Str ''retired'', Str ''success'', Num 160, Num 1],
              [Num 37, Str ''student'', Str ''no_previous_campaign'', Num 170, Num 0],
              [Num 38, Str ''admin.'', Str ''failure'', Num 180, Num 0],
              [Num 39, Str ''services'', Str ''no_previous_campaign'', Num 190, Num 0]]\<rparr>"

text \<open>A cleaned frame of 160 rows with 23 subscribers, reduced to the column \<^verbatim>\<open>y\<close>.\<close>

definition tie_rows :: table where
  "tie_rows = \<lparr>columns = [''y''], rows = replicate 23 [Num 1] @ replicate 137 [Num 0]\<rparr>"

section \<open>Columns of a well-formed table\<close>

lemma index_of_Some: "index_of c xs = Some i \<Longrightarrow> i < length xs \<and> xs ! i = c"
  by (induction xs arbitrary: i) (auto split: if_splits)

lemma index_of_None: "index_of c xs = None \<longleftrightarrow> c \<notin> set xs"
  by (induction xs) auto

lemma map2_update_rows:
  "length vs = length rs \<Longrightarrow> list_all (\<lambda>r. length r = n) rs \<Longrightarrow> i < n \<Longrightarrow>
   map (\<lambda>r. r ! j) (map2 (\<lambda>r v. r[i := v]) rs vs) =
     (if j = i then vs else map (\<lambda>r. r ! j) rs)"
  by (induction rs vs rule: list_induct2') auto

lemma map2_update_wf:
  "list_all (\<lambda>r. length r = n) rs \<Longrightarrow>
   list_all (\<lambda>r. length r = n) (map2 (\<lambda>r v. r[i := v]) rs vs)"
  by (induction rs vs rule: list_induct2') auto

lemma map2_update_length:
  "length vs = length rs \<Longrightarrow> length (map2 (\<lambda>r v. r[i := v]) rs vs) = length rs"
  by simp

lemma get_col_length: "get_col t c = Inr s \<Longrightarrow> length s = length (rows t)"
  by (auto simp: get_col_def split: option.splits)

lemma columns_set_col:
  "index_of c (columns t) = Some i \<Longrightarrow> columns (set_col t c vs) = columns t"
  by (simp add: set_col_def)

lemma wf_set_col:
  "wf_table t \<Longrightarrow> index_of c (columns t) = Some i \<Longrightarrow> wf_table (set_col t c vs)"
  by (simp add: set_col_def wf_table_def map2_update_wf)

lemma rows_length_set_col:
  "index_of c (columns t) = Some i \<Longrightarrow> length vs = length (rows t) \<Longrightarrow>
   length (rows (set_col t c vs)) = length (rows t)"
  by (simp add: set_col_def)

lemma get_set_col:
  assumes "wf_table t" "index_of c (columns t) = Some i" "length vs = length (rows t)"
  shows "get_col (set_col t c vs) c' = (if c' = c then Inr vs else get_col t c')"
proof (cases "index_of c' (columns t)")
  case None
  then have "c' \<noteq> c" using assms(2) by auto
  with None assms(2) show ?thesis
    by (simp add: get_col_def set_col_def)
next
  case (Some j)
  from assms(2) have i: "i < length (columns t)"
    by (simp add: index_of_Some)
  have cj: "columns t ! j = c'" using index_of_Some [OF Some] by (rule conjunct2)
  have ci: "columns t ! i = c" using index_of_Some [OF assms(2)] by (rule conjunct2)
  have ji: "j = i \<longleftrightarrow> c' = c"
  proof
    assume "j = i"
    with cj ci show "c' = c" by (simp only:)
  next
    assume "c' = c"
    with Some assms(2) have "Some j = Some i" by (simp only:)
    then show "j = i" by (simp only: option.inject)
  qed
  have wf: "list_all (\<lambda>r. length r = length (columns t)) (rows t)"
    using assms(1) by (simp add: wf_table_def)
  have "get_col (set_col t c vs) c' =
          Inr (map (\<lambda>r. r ! j) (map2 (\<lambda>r v. r[i := v]) (rows t) vs))"
    by (simp add: get_col_def set_col_def assms(2) Some)
  also have "\<dots> = Inr (if j = i then vs else map (\<lambda>r. r ! j) (rows t))"
    by (simp only: map2_update_rows [OF assms(3) wf i])
  also have "\<dots> = (if c' = c then Inr vs else get_col t c')"
    by (simp add: ji get_col_def Some)
  finally show ?thesis .
qed

text \<open>What the Cleaner returns, column by column.\<close>

lemma cleaner_cols:
  assumes wf: "wf_table t" and ok: "cleaner t = Inr t'"
  shows "\<exists>p y. get_col t ''poutcome'' = Inr p \<and> get_col t ''y'' = Inr y \<and>
           get_col t' ''poutcome'' =
             Inr (series_replace (Str ''nonexistent'') (Str ''no_previous_campaign'') p) \<and>
           get_col t' ''y'' = Inr (series_map y_dict y) \<and>
           columns t' = columns t \<and> length (rows t') = length (rows t) \<and> wf_table t' \<and>
           (\<forall>c. c \<noteq> ''poutcome'' \<and> c \<noteq> ''y'' \<longrightarrow> get_col t' c = get_col t c)"
proof -
  define rp where "rp = series_replace (Str ''nonexistent'') (Str ''no_previous_campaign'')"
  from ok obtain p where p: "get_col t ''poutcome'' = Inr p"
    by (auto simp: cleaner_def split: sum.splits)
  then obtain i where i: "index_of ''poutcome'' (columns t) = Some i"
    by (auto simp: get_col_def split: option.splits)
  define t1 where "t1 = set_col t ''poutcome'' (rp p)"
  have lp: "length (rp p) = length (rows t)"
    using p by (simp add: rp_def series_replace_def get_col_length)
  have g1: "get_col t1 c' = (if c' = ''poutcome'' then Inr (rp p) else get_col t c')" for c'
    unfolding t1_def using get_set_col [OF wf i lp] .
  have wf1: "wf_table t1" unfolding t1_def by (rule wf_set_col [OF wf i])
  have c1: "columns t1 = columns t" unfolding t1_def by (rule columns_set_col [OF i])
  have l1: "length (rows t1) = length (rows t)"
    unfolding t1_def by (rule rows_length_set_col [OF i lp])
  from ok p obtain y where y1: "get_col t1 ''y'' = Inr y"
    and t': "t' = set_col t1 ''y'' (series_map y_dict y)"
    by (auto simp: cleaner_def Let_def t1_def rp_def split: sum.splits)
  from y1 have y: "get_col t ''y'' = Inr y" by (simp add: g1)
  from y1 obtain j where j: "index_of ''y'' (columns t1) = Some j"
    by (auto simp: get_col_def split: option.splits)
  have ly: "length (series_map y_dict y) = length (rows t1)"
    using y1 by (simp add: series_map_def get_col_length)
  have g2: "get_col t' c' = (if c' = ''y'' then Inr (series_map y_dict y) else get_col t1 c')"
    for c'
    unfolding t' using get_set_col [OF wf1 j ly] .
  have "get_col t' ''poutcome'' = Inr (rp p)" by (simp add: g2 g1)
  moreover have "get_col t' ''y'' = Inr (series_map y_dict y)" by (simp add: g2)
  moreover have "columns t' = columns t"
    unfolding t' using columns_set_col [OF j] c1 by simp
  moreover have "length (rows t') = length (rows t)"
    unfolding t' using rows_length_set_col [OF j ly] l1 by simp
  moreover have "wf_table t'" unfolding t' by (rule wf_set_col [OF wf1 j])
  moreover have "\<forall>c. c \<noteq> ''poutcome'' \<and> c \<noteq> ''y'' \<longrightarrow> get_col t' c = get_col t c"
    by (simp add: g2 g1)
  ultimately show ?thesis using p y by (simp add: rp_def)
qed

section \<open>The recodings of the Cleaner\<close>

lemma y_dict_apply:
  "(case y_dict c of None \<Rightarrow> NaN | Some v \<Rightarrow> v) =
     (if c = Str ''yes'' then Num 1 else if c = Str ''no'' then Num 0 else NaN)"
  by (simp add: y_dict_def)

lemma series_map_y_dict:
  "series_map y_dict s =
     map (\<lambda>c. if c = Str ''yes'' then Num 1 else if c = Str ''no'' then Num 0 else NaN) s"
  by (simp add: series_map_def y_dict_apply)

lemma get_col_member: "c \<in> set (columns t) \<Longrightarrow> \<exists>s. get_col t c = Inr s"
  by (cases "index_of c (columns t)") (simp_all add: get_col_def index_of_None)

lemma cleaner_total:
  assumes wf: "wf_table t" and p: "get_col t ''poutcome'' = Inr p"
    and y: "get_col t ''y'' = Inr y"
  shows "\<exists>t'. cleaner t = Inr t'"
proof -
  define rp where "rp = series_replace (Str ''nonexistent'') (Str ''no_previous_campaign'') p"
  from p obtain i where i: "index_of ''poutcome'' (columns t) = Some i"
    by (auto simp: get_col_def split: option.splits)
  have lp: "length rp = length (rows t)"
    using p by (simp add: rp_def series_replace_def get_col_length)
  have "get_col (set_col t ''poutcome'' rp) ''y'' = Inr y"
    using get_set_col [OF wf i lp, of "''y''"] y by simp
  then show ?thesis
    using p by (simp add: cleaner_def rp_def)
qed

text \<open>
  Claim C1. On a frame that has the columns \<^verbatim>\<open>poutcome\<close> and \<^verbatim>\<open>y\<close> the Cleaner returns, and
  afterwards every value of \<^verbatim>\<open>y\<close> is 1 where it was the string "yes", 0 where it was "no"
  and the missing marker for any other value; no value of \<^verbatim>\<open>y\<close> is the string "yes" or
  "no" any more.
\<close>

theorem cleaner_maps_y:
  assumes "wf_table t" and "''poutcome'' \<in> set (columns t)" and "get_col t ''y'' = Inr ys"
  shows "\<exists>t' ys'. cleaner t = Inr t' \<and> get_col t' ''y'' = Inr ys' \<and>
           ys' = map (\<lambda>c. if c = Str ''yes'' then Num 1
                          else if c = Str ''no'' then Num 0 else NaN) ys \<and>
           Str ''yes'' \<notin> set ys' \<and> Str ''no'' \<notin> set ys' \<and>
           set ys' \<subseteq> {Num 0, Num 1, NaN}"
proof -
  from assms(2) obtain p where p: "get_col t ''poutcome'' = Inr p"
    using get_col_member by blast
  from cleaner_total [OF assms(1) p assms(3)] obtain t' where t': "cleaner t = Inr t'" ..
  from cleaner_cols [OF assms(1) t'] assms(3)
  have "get_col t' ''y'' = Inr (series_map y_dict ys)" by auto
  then show ?thesis
    using t' by (auto simp: series_map_y_dict)
qed

theorem cleaner_maps_y_witness:
  "wf_table sample \<and> ''poutcome'' \<in> set (columns sample) \<and>
   get_col sample ''y'' = Inr [Str ''yes'', Str ''no'', Str ''no'', Str ''unknown''] \<and>
   (\<exists>t'. cleaner sample = Inr t' \<and> get_col t' ''y'' = Inr [Num 1, Num 0, Num 0, NaN])"
proof -
  have a: "wf_table sample" by (simp add: wf_table_def sample_def)
  have b: "''poutcome'' \<in> set (columns sample)" by (simp add: sample_def)
  have c: "get_col sample ''y'' = Inr [Str ''yes'', Str ''no'', Str ''no'', Str ''unknown'']"
    by (simp add: get_col_def sample_def)
  from cleaner_maps_y [OF a b c] a b c show ?thesis by auto
qed

text \<open>
  Claim C4. The Cleaner replaces every value "nonexistent" of \<^verbatim>\<open>poutcome\<close> by
  "no_previous_campaign" and leaves every other value of the column as it was; afterwards
  no value of \<^verbatim>\<open>poutcome\<close> is "nonexistent".
\<close>

theorem cleaner_replaces_poutcome:
  assumes "wf_table t" and "get_col t ''poutcome'' = Inr ps" and "''y'' \<in> set (columns t)"
  shows "\<exists>t' ps'. cleaner t = Inr t' \<and> get_col t' ''poutcome'' = Inr ps' \<and>
           ps' = map (\<lambda>c. if c = Str ''nonexistent'' then Str ''no_previous_campaign'' else c) ps \<and>
           Str ''nonexistent'' \<notin> set ps'"
proof -
  from assms(3) obtain y where y: "get_col t ''y'' = Inr y"
    using get_col_member by blast
  from cleaner_total [OF assms(1) assms(2) y] obtain t' where t': "cleaner t = Inr t'" ..
  from cleaner_cols [OF assms(1) t'] assms(2)
  have "get_col t' ''poutcome'' =
          Inr (series_replace (Str ''nonexistent'') (Str ''no_previous_campaign'') ps)" by auto
  then show ?thesis
    using t' by (auto simp: series_replace_def)
qed

theorem cleaner_replaces_poutcome_witness:
  "wf_table sample \<and> ''y'' \<in> set (columns sample) \<and>
   get_col sample ''poutcome'' =
     Inr [Str ''nonexistent'', Str ''success'', Str ''success'', Str ''failure''] \<and>
   (\<exists>t'. cleaner sample = Inr t' \<and>
      get_col t' ''poutcome'' =
        Inr [Str ''no_previous_campaign'', Str ''success'', Str ''success'', Str ''failure''])"
proof -
  have a: "wf_table sample" by (simp add: wf_table_def sample_def)
  have b: "''y'' \<in> set (columns sample)" by (simp add: sample_def)
  have c: "get_col sample ''poutcome'' =
      Inr [Str ''nonexistent'', Str ''success'', Str ''success'', Str ''failure'']"
    by (simp add: get_col_def sample_def)
  from cleaner_replaces_poutcome [OF a c b] a b c show ?thesis by auto
qed

section \<open>The duplicate rows of the Inspector\<close>

lemma kept_Nil: "unmarked [] ds = []"
  by (simp add: unmarked_def)

lemma kept_Cons:
  "unmarked (r # rs) (d # ds) = (if d then unmarked rs ds else r # unmarked rs ds)"
  by (simp add: unmarked_def)


lemma length_duplicated_from: "length (duplicated_from seen rs) = length rs"
  by (induction rs arbitrary: seen) simp_all







lemma no_duplicates_iff:
  "filter (\<lambda>d. d) (duplicated_from seen rs) = [] \<longleftrightarrow> distinct rs \<and> set rs \<inter> set seen = {}"
  by (induction rs arbitrary: seen) auto

lemma kept_distinct: "distinct rs \<Longrightarrow> set rs \<inter> set seen = {} \<Longrightarrow> kept seen rs = rs"
  by (induction rs arbitrary: seen) (auto simp: kept_Nil kept_Cons)


lemma remove_duplicates_table:
  "snd (remove_duplicates t) = t\<lparr>rows := kept [] (rows t)\<rparr>"
proof (cases "filter (\<lambda>d. d) (duplicated t) = []")
  case True
  then have "distinct (rows t)"
    by (simp add: duplicated_def no_duplicates_iff)
  then have "kept [] (rows t) = rows t"
    by (simp add: kept_distinct)
  with True show ?thesis
    by (simp add: remove_duplicates_def)
next
  case False
  then show ?thesis
    by (simp add: remove_duplicates_def drop_duplicates_def duplicated_def)
qed

lemma inspector_table:
  "has_object t \<Longrightarrow> \<exists>es. inspector t = (es, Inr (snd (remove_duplicates t)))"
  by (simp add: inspector_def Let_def split: prod.splits)



section \<open>Rounding to binary64\<close>

lemma round_half_even_of_int: "round_half_even (of_int z) = z"
  by (simp add: round_half_even_def)

lemma pow2_powr: "pow2 q = 2 powr real_of_int q"
  by (simp add: pow2_def powr_real_of_int inverse_eq_divide)

lemma pow2_pos: "0 < pow2 q"
  by (simp add: pow2_def)

lemma floor_log2: "0 < x \<Longrightarrow> pow2 e \<le> x \<Longrightarrow> x < pow2 (e + 1) \<Longrightarrow> \<lfloor>log 2 x\<rfloor> = e"
  by (simp add: floor_log_eq_powr_iff pow2_powr)

lemma float64_normal:
  assumes "0 < x" and "pow2 e \<le> x" and "x < pow2 (e + 1)" and "- 1022 \<le> e"
  shows "float64 x = real_of_int (round_half_even (x / pow2 (e - 52))) * pow2 (e - 52)"
proof -
  have "\<lfloor>log 2 \<bar>x\<bar>\<rfloor> = e" using assms by (simp add: floor_log2)
  moreover have "max (e - 52) (- 1074) = e - 52" using assms(4) by simp
  ultimately show ?thesis using assms(1) by (simp add: float64_def Let_def)
qed

lemma float64_nat:
  assumes "m < 2 ^ 53"
  shows "float64 (real m) = real m"
proof (cases "m = 0")
  case True
  then show ?thesis by (simp add: float64_def)
next
  case False
  define e where "e = \<lfloor>log 2 (real m)\<rfloor>"
  have m: "0 < real m" using False by simp
  have b: "pow2 e \<le> real m" "real m < pow2 (e + 1)"
    using floor_log_eq_powr_iff [of "real m" 2 e] m by (simp_all add: e_def pow2_powr)
  have "1 \<le> real m" using False by simp
  then have "0 \<le> log 2 (real m)" by simp
  then have e0: "0 \<le> e" by (simp add: e_def)
  have "real m < 2 ^ 53" using assms by (metis of_nat_less_iff of_nat_numeral of_nat_power)
  then have "log 2 (real m) < 53"
    using m by (simp add: log_less_iff powr_realpow [symmetric])
  then have e52: "e \<le> 52" by (simp add: e_def floor_le_iff)
  define j where "j = nat (52 - e)"
  have q: "pow2 (e - 52) = 1 / 2 ^ j"
    using e52 by (cases "e = 52") (simp_all add: pow2_def j_def)
  have "real m / pow2 (e - 52) = of_int (int m * 2 ^ j)"
    by (simp add: q)
  then have r: "round_half_even (real m / pow2 (e - 52)) = int m * 2 ^ j"
    by (simp only: round_half_even_of_int)
  have "float64 (real m) = real_of_int (int m * 2 ^ j) * pow2 (e - 52)"
    using float64_normal [OF m b] e0 r by simp
  also have "\<dots> = real m" by (simp add: q)
  finally show ?thesis .
qed

lemma round_half_even_error: "\<bar>real_of_int (round_half_even y) - y\<bar> \<le> 1 / 2"
proof -
  have "real_of_int \<lfloor>y\<rfloor> \<le> y" "y < real_of_int \<lfloor>y\<rfloor> + 1" by linarith+
  then show ?thesis
    by (auto simp: round_half_even_def Let_def)
qed

lemma pow2_add: "pow2 (a + b) = pow2 a * pow2 b"
  by (simp add: pow2_powr powr_add)

lemma float64_error:
  assumes "pow2 (- 1022) \<le> x"
  shows "\<bar>float64 x - x\<bar> \<le> x / 2 ^ 53"
proof -
  have x: "0 < x" using assms pow2_pos [of "- 1022"] by linarith
  define e where "e = \<lfloor>log 2 x\<rfloor>"
  have b: "pow2 e \<le> x" "x < pow2 (e + 1)"
    using floor_log_eq_powr_iff [of x 2 e] x by (simp_all add: e_def pow2_powr)
  have "real_of_int (- 1022) \<le> log 2 x"
    using assms x by (simp add: le_log_iff pow2_powr)
  then have e: "- 1022 \<le> e" unfolding e_def by (simp only: le_floor_iff)
  define q where "q = e - 52"
  define R where "R = real_of_int (round_half_even (x / pow2 q))"
  have f: "float64 x = R * pow2 q"
    unfolding R_def q_def by (rule float64_normal [OF x b e])
  have "\<bar>R - x / pow2 q\<bar> \<le> 1 / 2"
    unfolding R_def by (rule round_half_even_error)
  then have "\<bar>R - x / pow2 q\<bar> * pow2 q \<le> 1 / 2 * pow2 q"
    using pow2_pos [of q] by (simp only: mult_le_cancel_right_pos)
  moreover have "\<bar>R - x / pow2 q\<bar> * pow2 q = \<bar>R * pow2 q - x\<bar>"
  proof -
    have "\<bar>R - x / pow2 q\<bar> * pow2 q = \<bar>(R - x / pow2 q) * pow2 q\<bar>"
      using pow2_pos [of q] by (simp add: abs_mult)
    also have "(R - x / pow2 q) * pow2 q = R * pow2 q - x"
      using pow2_pos [of q] by (simp add: field_simps)
    finally show ?thesis .
  qed
  moreover have "pow2 e = pow2 q * 2 ^ 52"
    using pow2_add [of q 52] by (simp add: q_def pow2_def)
  ultimately have "\<bar>float64 x - x\<bar> \<le> pow2 e / 2 ^ 53"
    by (simp add: f)
  also have "\<dots> \<le> x / 2 ^ 53"
    using b(1) by (simp add: divide_right_mono)
  finally show ?thesis .
qed

lemma percentage_error:
  assumes "0 < k" and "k \<le> n" and "n < 2 ^ 53"
  shows "\<bar>float64 (float64 (real k / real n) * 100) - 100 * real k / real n\<bar> \<le> 1 / 2 ^ 45"
proof -
  define r where "r = real k / real n"
  define u :: real where "u = 1 / 2 ^ 53"
  have n: "0 < real n" using assms by simp
  have "real n < 2 ^ 53" using assms(3) by (metis of_nat_less_iff of_nat_numeral of_nat_power)
  then have "1 / 2 ^ 53 < 1 / real n" using n by (simp add: field_simps)
  also have "\<dots> \<le> r" using assms(1) n by (simp add: r_def divide_right_mono)
  finally have r53: "1 / 2 ^ 53 < r" .
  have r1: "r \<le> 1" using assms(2) n by (simp add: r_def)
  have r0: "0 < r" using r53 by (simp add: less_trans [rotated])
  have "pow2 (- 1022) \<le> 1 / 2 ^ 53" by (simp add: pow2_def)
  then have rn: "pow2 (- 1022) \<le> r" using r53 by linarith
  have e1: "\<bar>float64 r - r\<bar> \<le> r * u"
    using float64_error [OF rn] by (simp add: u_def)
  define a where "a = float64 r * 100"
  have u0: "0 < u" "u \<le> 1 / 2" by (simp_all add: u_def)
  have ra: "r * (1 - u) \<le> float64 r" "float64 r \<le> r * (1 + u)"
    using e1 by (simp_all add: abs_le_iff algebra_simps)
  have "r * 1 \<le> r * ((1 - u) * 100)"
    using r0 u0 by (intro mult_left_mono) simp_all
  then have "r \<le> a" using ra(1) by (simp add: a_def algebra_simps)
  then have an: "pow2 (- 1022) \<le> a" using rn by linarith
  have e2: "\<bar>float64 a - a\<bar> \<le> a * u"
    using float64_error [OF an] by (simp add: u_def)
  have "a \<le> r * (1 + u) * 100" using ra(2) by (simp add: a_def)
  then have "a * u \<le> r * (1 + u) * 100 * u"
    using u0 by (simp only: mult_le_cancel_right_pos)
  with e2 have e3: "\<bar>float64 a - a\<bar> \<le> r * (1 + u) * 100 * u" by linarith
  have "\<bar>a - 100 * r\<bar> = 100 * \<bar>float64 r - r\<bar>"
    by (simp add: a_def abs_le_iff algebra_simps abs_if)
  with e1 have e4: "\<bar>a - 100 * r\<bar> \<le> 100 * (r * u)" by simp
  have "\<bar>float64 a - 100 * r\<bar> \<le> \<bar>float64 a - a\<bar> + \<bar>a - 100 * r\<bar>" by simp
  also have "\<dots> \<le> r * (1 + u) * 100 * u + 100 * (r * u)" using e3 e4 by linarith
  also have "\<dots> = r * (100 * u * (2 + u))" by (simp add: algebra_simps)
  also have "\<dots> \<le> 1 * (100 * u * (2 + u))"
    using r1 u0 by (intro mult_right_mono) simp_all
  also have "\<dots> \<le> 1 / 2 ^ 45" by (simp add: u_def)
  finally show ?thesis by (simp add: a_def r_def)
qed

section \<open>The first statement of the Reporter\<close>

lemma y_dict_twice: "(case y_dict (case y_dict c of None \<Rightarrow> NaN | Some v \<Rightarrow> v) of
    None \<Rightarrow> NaN | Some v \<Rightarrow> v) = NaN"
  by (simp add: y_dict_def)

lemma cleaned_no_str: "set ys \<subseteq> {Num 0, Num 1, NaN} \<Longrightarrow> \<not> list_ex is_str ys"
  by (induction ys) auto

lemma cleaned_length: "set ys \<subseteq> {Num 0, Num 1, NaN} \<Longrightarrow>
    length (nums ys) = count_list ys (Num 1) + count_list ys (Num 0)"
  by (induction ys) auto

lemma length_nums: "length (nums ys) \<le> length ys"
  by (induction ys rule: nums.induct) simp_all

lemma count_list_pos: "x \<in> set xs \<Longrightarrow> 0 < count_list xs x"
  by (induction xs) auto

lemma cleaned_float_sum:
  "set ys \<subseteq> {Num 0, Num 1, NaN} \<Longrightarrow> a + length ys < 2 ^ 53 \<Longrightarrow>
   foldl (\<lambda>a x. float64 (a + x)) (real a) (nums ys) = real (a + count_list ys (Num 1))"
proof (induction ys arbitrary: a)
  case Nil
  show ?case by simp
next
  case (Cons c ys)
  from Cons.prems have s: "set ys \<subseteq> {Num 0, Num 1, NaN}" and c: "c \<in> {Num 0, Num 1, NaN}"
    and l: "a + length ys < 2 ^ 53" "Suc a + length ys < 2 ^ 53"
    by simp_all
  from l have a: "a < 2 ^ 53" "Suc a < 2 ^ 53" by simp_all
  have f0: "float64 (real a) = real a"
    by (rule float64_nat [OF a(1)])
  have f1: "float64 (real a + 1) = real (Suc a)"
    using float64_nat [OF a(2)] by (simp add: add.commute)
  from c consider "c = Num 0" | "c = Num 1" | "c = NaN" by auto
  then show ?case
  proof cases
    case 1
    then show ?thesis using Cons.IH [OF s l(1)] by (simp add: f0)
  next
    case 2
    then show ?thesis using Cons.IH [OF s l(2)] by (simp add: f1)
  next
    case 3
    then show ?thesis using Cons.IH [OF s l(1)] by simp
  qed
qed

lemma statement1_cleaned:
  assumes y: "get_col t ''y'' = Inr ys" and c: "set ys \<subseteq> {Num 0, Num 1, NaN}"
    and p: "Num 1 \<in> set ys" and l: "length ys < 2 ^ 53"
  shows "statement1 t =
           Inr (statement1_text (count_list ys (Num 1))
                  (fmt2 (float64 (float64 (real (count_list ys (Num 1)) /
                           real (count_list ys (Num 1) + count_list ys (Num 0))) * 100))))"
proof -
  have v: "value_counts ys (Num 1) = Some (count_list ys (Num 1))"
    using p by (simp add: value_counts_def)
  have n: "nums ys \<noteq> []"
    using count_list_pos [OF p] cleaned_length [OF c] by auto
  have "float_sum (nums ys) = real (0 + count_list ys (Num 1))"
    unfolding float_sum_def using cleaned_float_sum [OF c, of 0] l by simp
  then have s: "float_sum (nums ys) = real (count_list ys (Num 1))" by simp
  have "length (nums ys) < 2 ^ 53"
    using length_nums [of ys] l by (rule le_less_trans)
  then have d: "float64 (real (length (nums ys))) =
      real (count_list ys (Num 1) + count_list ys (Num 0))"
    by (simp only: float64_nat cleaned_length [OF c])
  have m: "series_mean ys = Inr (Some (float64 (real (count_list ys (Num 1)) /
      real (count_list ys (Num 1) + count_list ys (Num 0)))))"
    using n by (simp only: series_mean_def cleaned_no_str [OF c] s d if_False)
  show ?thesis
    by (simp add: statement1_def y v m fmt2_nan_def)
qed

lemma cleaned_not_missing:
  "set ys \<subseteq> {Num 0, Num 1, NaN} \<Longrightarrow>
   count_list ys (Num 1) + count_list ys (Num 0) = length (filter (\<lambda>c. c \<noteq> NaN) ys)"
  by (induction ys) auto

lemma count_list_replicate: "count_list (replicate n x) a = (if x = a then n else 0)"
  by (induction n) auto

lemma count_mapped_yes: "count_list (series_map y_dict ys) (Num 1) = count_list ys (Str ''yes'')"
  by (induction ys) (simp_all add: series_map_def y_dict_def)

lemma count_mapped_no: "count_list (series_map y_dict ys) (Num 0) = count_list ys (Str ''no'')"
  by (induction ys) (simp_all add: series_map_def y_dict_def)

lemma set_mapped: "set (series_map y_dict ys) \<subseteq> {Num 0, Num 1, NaN}"
  by (auto simp: series_map_y_dict)

lemma mapped_yes: "Str ''yes'' \<in> set ys \<Longrightarrow> Num 1 \<in> set (series_map y_dict ys)"
  by (auto simp: series_map_y_dict)

lemma count_recognized:
  "count_list ys (Str ''yes'') + count_list ys (Str ''no'') =
     length (filter (\<lambda>c. c = Str ''yes'' \<or> c = Str ''no'') ys)"
  by (induction ys) auto

text \<open>
  Claim C5, as amended. A second application of the mapping to a recoded column is not
  a no-op: the keys of the dictionary are the strings "yes" and "no", so every value,
  0 and 1 included, becomes the missing marker; from the second application on the
  column no longer changes.
\<close>

theorem y_mapping_twice:
  "series_map y_dict (series_map y_dict s) = replicate (length s) NaN \<and>
   series_map y_dict (series_map y_dict (series_map y_dict s)) =
     series_map y_dict (series_map y_dict s)"
proof -
  have a: "series_map y_dict (series_map y_dict s) = replicate (length s) NaN" for s
    by (induction s) (simp_all add: series_map_def y_dict_twice)
  have b: "series_map y_dict (replicate n NaN) = replicate n NaN" for n
    by (simp add: series_map_def y_dict_def)
  show ?thesis by (simp only: a b simp_thms)
qed

theorem y_mapping_twice_counterexample:
  "series_map y_dict [Str ''yes'', Str ''no''] = [Num 1, Num 0] \<and>
   series_map y_dict (series_map y_dict [Str ''yes'', Str ''no'']) = [NaN, NaN] \<and>
   series_map y_dict (series_map y_dict [Str ''yes'', Str ''no'']) \<noteq>
     series_map y_dict [Str ''yes'', Str ''no'']"
  by (simp add: series_map_def y_dict_def)

text \<open>
  Claim C9. On a cleaned frame in which no row has \<^verbatim>\<open>y == 1\<close> the first statement is not
  printed with a count of 0: the lookup \<^verbatim>\<open>value_counts()[1]\<close> raises KeyError, and the
  Reporter ends after its two heading lines, before any of the five statements.
\<close>

theorem reporter_no_subscriber:
  assumes "get_col t ''y'' = Inr ys" and "Num 1 \<notin> set ys"
  shows "statement1 t = Inl (KeyError ''1'') \<and>
         reporter t =
           ([Print (nl ''## Key Insights from EDA''),
             Print ''Based on the analysis, here are some key findings:''],
            Inl (KeyError ''1''))"
  using assms
  by (simp add: statement1_def value_counts_def reporter_def print_text_def read_only_def)

theorem reporter_no_subscriber_witness:
  "get_col no_subscriber ''y'' = Inr [Num 0, Num 0] \<and> Num 1 \<notin> set [Num 0, Num 0 :: cell] \<and>
   statement1 no_subscriber = Inl (KeyError ''1'') \<and>
   reporter no_subscriber =
     ([Print (nl ''## Key Insights from EDA''),
       Print ''Based on the analysis, here are some key findings:''],
      Inl (KeyError ''1''))"
proof -
  have a: "get_col no_subscriber ''y'' = Inr [Num 0, Num 0]"
    by (simp add: get_col_def no_subscriber_def)
  have b: "Num 1 \<notin> set [Num 0, Num 0 :: cell]" by simp
  from reporter_no_subscriber [OF a b] a b show ?thesis by simp
qed

lemma float64_third: "float64 (1 / 3) = 6004799503160661 / 2 ^ 54"
  by (simp add: float64_normal [where e = "- 2"] pow2_def round_half_even_def)

lemma percentage_third: "fmt2 (float64 (float64 (1 / 3) * 100)) = ''33.33''"
  by (simp add: float64_third float64_normal [where e = 5] pow2_def round_half_even_def
      fmt2_def dec.simps digit_def)

lemma float64_three_tenths: "float64 (3 / 10) = 5404319552844595 / 2 ^ 54"
  by (simp add: float64_normal [where e = "- 2"] pow2_def round_half_even_def)

lemma percentage_three_tenths: "fmt2 (float64 (float64 (3 / 10) * 100)) = ''30.00''"
  by (simp add: float64_three_tenths float64_normal [where e = 4] pow2_def
      round_half_even_def fmt2_def dec.simps digit_def)

lemma float64_tie: "float64 (23 / 160) = 5179139571476070 / 2 ^ 55"
  by (simp add: float64_normal [where e = "- 3"] pow2_def round_half_even_def)

lemma percentage_tie: "fmt2 (float64 (float64 (23 / 160) * 100)) = ''14.37''"
  by (simp add: float64_tie float64_normal [where e = 3] pow2_def round_half_even_def
      fmt2_def dec.simps digit_def)

lemma percentage_exact_tie: "fmt2 (100 * 23 / 160) = ''14.38''"
  by (simp add: fmt2_def round_half_even_def dec.simps digit_def)

lemma percentage_one: "fmt2 (float64 (float64 (1 / 1) * 100)) = ''100.00''"
proof -
  have "float64 (real 1) = real 1" by (rule float64_nat) simp
  moreover have "float64 (real 100) = real 100" by (rule float64_nat) simp
  ultimately show ?thesis
    by (simp add: fmt2_def round_half_even_def dec.simps digit_def)
qed

text \<open>
  Claim C10. The percentage of the first statement is the mean of the values of \<^verbatim>\<open>y\<close> that
  are not missing, times 100, both computed in 64-bit floating point: with the labels
  of the frame before the Cleaner, it is the number of "yes" rows over the number of "yes"
  and "no" rows, within \<open>2\<close> to the \<open>- 45\<close> of the exact value. A row with any other label is
  recoded to missing and does not count in the denominator, so the percentage is the
  share among the rows with a recognised label, not among all rows.
\<close>

theorem percentage_over_recognised_labels:
  assumes "wf_table t0" and "cleaner t0 = Inr t" and "get_col t0 ''y'' = Inr ys"
    and "Str ''yes'' \<in> set ys" and "length (rows t0) < 2 ^ 53"
  shows "statement1 t =
           Inr (statement1_text (count_list ys (Str ''yes''))
                  (fmt2 (float64 (float64 (real (count_list ys (Str ''yes'')) /
                      real (count_list ys (Str ''yes'') + count_list ys (Str ''no''))) * 100)))) \<and>
         \<bar>float64 (float64 (real (count_list ys (Str ''yes'')) /
              real (count_list ys (Str ''yes'') + count_list ys (Str ''no''))) * 100) -
          100 * real (count_list ys (Str ''yes'')) /
            real (count_list ys (Str ''yes'') + count_list ys (Str ''no''))\<bar> \<le> 1 / 2 ^ 45 \<and>
         count_list ys (Str ''yes'') + count_list ys (Str ''no'') =
           length (filter (\<lambda>c. c = Str ''yes'' \<or> c = Str ''no'') ys) \<and>
         length ys = length (rows t0)"
proof -
  define k where "k = count_list ys (Str ''yes'')"
  define n where "n = count_list ys (Str ''yes'') + count_list ys (Str ''no'')"
  from cleaner_cols [OF assms(1) assms(2)] assms(3)
  have y: "get_col t ''y'' = Inr (series_map y_dict ys)" by auto
  have l: "length ys = length (rows t0)" by (rule get_col_length [OF assms(3)])
  have lm: "length (series_map y_dict ys) < 2 ^ 53"
    using assms(5) l by (simp add: series_map_def)
  from statement1_cleaned [OF y set_mapped mapped_yes [OF assms(4)] lm]
  have s: "statement1 t = Inr (statement1_text k (fmt2 (float64 (float64 (real k / real n) * 100))))"
    by (simp only: count_mapped_yes count_mapped_no k_def n_def)
  have r: "n = length (filter (\<lambda>c. c = Str ''yes'' \<or> c = Str ''no'') ys)"
    unfolding n_def by (rule count_recognized)
  have k0: "0 < k" unfolding k_def by (rule count_list_pos [OF assms(4)])
  have kn: "k \<le> n" by (simp add: k_def n_def)
  have "n \<le> length ys" unfolding r by (rule length_filter_le)
  then have n53: "n < 2 ^ 53" using assms(5) l by simp
  have e: "\<bar>float64 (float64 (real k / real n) * 100) - 100 * real k / real n\<bar> \<le> 1 / 2 ^ 45"
    by (rule percentage_error [OF k0 kn n53])
  from s e r l show ?thesis unfolding k_def n_def by simp
qed

theorem percentage_over_recognised_labels_witness:
  "wf_table sample \<and>
   get_col sample ''y'' = Inr [Str ''yes'', Str ''no'', Str ''no'', Str ''unknown''] \<and>
   Str ''yes'' \<in> set [Str ''yes'', Str ''no'', Str ''no'', Str ''unknown''] \<and>
   length (rows sample) = 4 \<and>
   (\<exists>t. cleaner sample = Inr t \<and>
      statement1 t = Inr (statement1_text 1 ''33.33'') \<and>
      statement1 t \<noteq> Inr (statement1_text 1 ''25.00''))"
proof -
  have a: "wf_table sample" by (simp add: wf_table_def sample_def)
  have c: "get_col sample ''y'' = Inr [Str ''yes'', Str ''no'', Str ''no'', Str ''unknown'']"
    by (simp add: get_col_def sample_def)
  have d: "Str ''yes'' \<in> set [Str ''yes'', Str ''no'', Str ''no'', Str ''unknown'']" by simp
  have p: "get_col sample ''poutcome'' =
      Inr [Str ''nonexistent'', Str ''success'', Str ''success'', Str ''failure'']"
    by (simp add: get_col_def sample_def)
  have l: "length (rows sample) = 4" by (simp add: sample_def)
  have l53: "length (rows sample) < 2 ^ 53" by (simp add: l)
  from cleaner_total [OF a p c] obtain t where t: "cleaner sample = Inr t" ..
  from percentage_over_recognised_labels [OF a t c d l53]
  have "statement1 t = Inr (statement1_text 1 ''33.33'')"
    using percentage_third by simp
  moreover have "statement1_text 1 ''33.33'' \<noteq> statement1_text 1 ''25.00''"
    by (simp add: statement1_text_def)
  ultimately show ?thesis using a c d t l by auto
qed

text \<open>
  Claim C6, as amended. On a cleaned frame with at least one row where \<^verbatim>\<open>y == 1\<close>, the
  first statement reports the number of such rows and their percentage among the
  rows whose \<^verbatim>\<open>y\<close> is not missing, with two decimals; when no \<^verbatim>\<open>y\<close> is missing that is the
  percentage among all rows. The percentage is computed in 64-bit floating point, the
  quotient first and then the product by 100, and is within \<open>2\<close> to the \<open>- 45\<close> of the exact
  value; the two decimals are those of the float, so that 23 subscribers in 160 rows
  are reported as 14.37. For ten rows with three subscribers and seven others it
  reports 3 and 30.00%. On a cleaned frame with no row where \<^verbatim>\<open>y == 1\<close> there is no first
  statement: the lookup of the count raises KeyError.
\<close>

theorem reporter_first_statement:
  assumes "get_col t ''y'' = Inr ys" and "set ys \<subseteq> {Num 0, Num 1, NaN}"
    and "length ys < 2 ^ 53"
  shows "(Num 1 \<in> set ys \<longrightarrow>
            statement1 t =
              Inr (statement1_text (count_list ys (Num 1))
                     (fmt2 (float64 (float64 (real (count_list ys (Num 1)) /
                         real (count_list ys (Num 1) + count_list ys (Num 0))) * 100)))) \<and>
            \<bar>float64 (float64 (real (count_list ys (Num 1)) /
                 real (count_list ys (Num 1) + count_list ys (Num 0))) * 100) -
             100 * real (count_list ys (Num 1)) /
               real (count_list ys (Num 1) + count_list ys (Num 0))\<bar> \<le> 1 / 2 ^ 45) \<and>
         (Num 1 \<notin> set ys \<longrightarrow> statement1 t = Inl (KeyError ''1'')) \<and>
         count_list ys (Num 1) + count_list ys (Num 0) = length (filter (\<lambda>c. c \<noteq> NaN) ys) \<and>
         (NaN \<notin> set ys \<longrightarrow>
            count_list ys (Num 1) + count_list ys (Num 0) = length (rows t))"
proof -
  define k where "k = count_list ys (Num 1)"
  define n where "n = count_list ys (Num 1) + count_list ys (Num 0)"
  have r: "n = length (filter (\<lambda>c. c \<noteq> NaN) ys)"
    unfolding n_def by (rule cleaned_not_missing [OF assms(2)])
  have "NaN \<notin> set ys \<Longrightarrow> filter (\<lambda>c. c \<noteq> NaN) ys = ys"
    by (induction ys) auto
  then have a: "NaN \<notin> set ys \<longrightarrow> n = length (rows t)"
    using r get_col_length [OF assms(1)] by simp
  have "n \<le> length ys" unfolding r by (rule length_filter_le)
  then have n53: "n < 2 ^ 53" using assms(3) by simp
  have kn: "k \<le> n" by (simp add: k_def n_def)
  have p: "Num 1 \<in> set ys \<longrightarrow>
      statement1 t = Inr (statement1_text k (fmt2 (float64 (float64 (real k / real n) * 100)))) \<and>
      \<bar>float64 (float64 (real k / real n) * 100) - 100 * real k / real n\<bar> \<le> 1 / 2 ^ 45"
  proof
    assume m: "Num 1 \<in> set ys"
    have k0: "0 < k" unfolding k_def by (rule count_list_pos [OF m])
    from statement1_cleaned [OF assms(1) assms(2) m assms(3)] percentage_error [OF k0 kn n53]
    show "statement1 t =
        Inr (statement1_text k (fmt2 (float64 (float64 (real k / real n) * 100)))) \<and>
      \<bar>float64 (float64 (real k / real n) * 100) - 100 * real k / real n\<bar> \<le> 1 / 2 ^ 45"
      unfolding k_def n_def by simp
  qed
  have z: "Num 1 \<notin> set ys \<longrightarrow> statement1 t = Inl (KeyError ''1'')"
    by (simp add: statement1_def assms(1) value_counts_def)
  from p z r a show ?thesis unfolding k_def n_def by simp
qed

theorem reporter_first_statement_witness:
  "get_col ten_rows ''y'' =
     Inr [Num 1, Num 0, Num 0, Num 1, Num 0, Num 0, Num 1, Num 0, Num 0, Num 0] \<and>
   length (rows ten_rows) = 10 \<and>
   statement1 ten_rows =
     Inr ''1. A total of 3 clients subscribed to the term deposit, which is about 30.00% of the dataset.'' \<and>
   get_col tie_rows ''y'' = Inr (replicate 23 (Num 1) @ replicate 137 (Num 0)) \<and>
   length (rows tie_rows) = 160 \<and>
   statement1 tie_rows =
     Inr ''1. A total of 23 clients subscribed to the term deposit, which is about 14.37% of the dataset.'' \<and>
   statement1 no_subscriber = Inl (KeyError ''1'')"
proof -
  have a: "get_col ten_rows ''y'' =
     Inr [Num 1, Num 0, Num 0, Num 1, Num 0, Num 0, Num 1, Num 0, Num 0, Num 0]"
    by (simp add: get_col_def ten_rows_def)
  have b: "set [Num 1, Num 0, Num 0, Num 1, Num 0, Num 0, Num 1, Num 0, Num 0, Num 0]
      \<subseteq> {Num 0, Num 1, NaN}" by simp
  have c: "length [Num 1, Num 0, Num 0, Num 1, Num 0, Num 0, Num 1, Num 0, Num 0, Num 0 :: cell]
      < 2 ^ 53" by simp
  have d3: "dec 3 = ''3''" by (simp add: dec.simps digit_def)
  have d23: "dec 23 = ''23''" by (simp add: dec.simps digit_def)
  from reporter_first_statement [OF a b c]
  have "statement1 ten_rows = Inr (statement1_text 3 ''30.00'')"
    using percentage_three_tenths by (simp add: numeral_3_eq_3 [symmetric])
  then have s10: "statement1 ten_rows =
     Inr ''1. A total of 3 clients subscribed to the term deposit, which is about 30.00% of the dataset.''"
    by (simp add: statement1_text_def d3)
  have l10: "length (rows ten_rows) = 10" by (simp add: ten_rows_def)
  have a': "get_col tie_rows ''y'' = Inr (replicate 23 (Num 1) @ replicate 137 (Num 0))"
    by (simp add: get_col_def tie_rows_def)
  have b': "set (replicate 23 (Num 1) @ replicate 137 (Num 0)) \<subseteq> {Num 0, Num 1, NaN}"
    by simp
  have c': "length (replicate 23 (Num 1) @ replicate 137 (Num 0 :: cell)) < 2 ^ 53" by simp
  from reporter_first_statement [OF a' b' c']
  have "statement1 tie_rows = Inr (statement1_text 23 ''14.37'')"
    using percentage_tie by (simp add: count_list_replicate)
  then have s160: "statement1 tie_rows =
     Inr ''1. A total of 23 clients subscribed to the term deposit, which is about 14.37% of the dataset.''"
    by (simp add: statement1_text_def d23)
  have l160: "length (rows tie_rows) = 160" by (simp add: tie_rows_def)
  have a0: "get_col no_subscriber ''y'' = Inr [Num 0, Num 0]"
    by (simp add: get_col_def no_subscriber_def)
  have b0: "set [Num 0, Num 0] \<subseteq> {Num 0, Num 1, NaN}" by simp
  have c0: "length [Num 0, Num 0 :: cell] < 2 ^ 53" by simp
  from reporter_first_statement [OF a0 b0 c0]
  have s0: "statement1 no_subscriber = Inl (KeyError ''1'')" by simp
  from a l10 s10 a' l160 s160 s0 show ?thesis by simp
qed

theorem reporter_first_statement_counterexample:
  "statement1 one_missing \<noteq>
     Inr (statement1_text (count_list (column one_missing ''y'') (Num 1))
            (fmt2 (100 * real (count_list (column one_missing ''y'') (Num 1)) /
                   real (length (rows one_missing))))) \<and>
   statement1 no_subscriber \<noteq>
     Inr (statement1_text (count_list (column no_subscriber ''y'') (Num 1))
            (fmt2 (100 * real (count_list (column no_subscriber ''y'') (Num 1)) /
                   real (length (rows no_subscriber)))))"
proof -
  have a: "get_col one_missing ''y'' = Inr [Num 1, NaN]"
    by (simp add: get_col_def one_missing_def)
  have "statement1 one_missing = Inr (statement1_text 1 ''100.00'')"
    using statement1_cleaned [OF a] percentage_one by simp
  moreover have "fmt2 (100 * real (1::nat) / real (2::nat)) = ''50.00''"
    by (simp add: fmt2_def round_half_even_def dec.simps digit_def)
  moreover have "length (rows one_missing) = 2" by (simp add: one_missing_def)
  moreover have "statement1_text 1 ''100.00'' \<noteq> statement1_text 1 ''50.00''"
    by (simp add: statement1_text_def)
  moreover have b: "get_col no_subscriber ''y'' = Inr [Num 0, Num 0]"
    by (simp add: get_col_def no_subscriber_def)
  moreover have "statement1 no_subscriber = Inl (KeyError ''1'')"
    by (simp add: statement1_def b value_counts_def)
  ultimately show ?thesis by (simp add: column_def a)
qed

section \<open>The charts of the Visualizer\<close>

lemma column_member_numeric:
  "c \<in> set (columns t) \<Longrightarrow> is_number (column t c) \<Longrightarrow> c \<in> set (numerical_cols t)"
  by (simp add: numerical_cols_def)

lemma cleaned_is_number: "set ys \<subseteq> {Num 0, Num 1, NaN} \<Longrightarrow> is_number ys"
  by (induction ys) (auto simp: is_number_def)

lemma visualizer_valid:
  assumes "valid_cleaned t"
  shows "visualizer t =
     ([Print (nl ''## Univariate Analysis''),
       Print ''Visualizing the distribution of key variables.'',
       Show \<lparr>plot = CountPlot ''y'',
             title = ''Distribution of the Target Variable (Subscribed to Term Deposit)''\<rparr>,
       Show \<lparr>plot = HistPlot ''age'' 30, title = ''Distribution of Age''\<rparr>,
       Show \<lparr>plot = CountPlotH ''job'' None, title = ''Distribution of Job Categories''\<rparr>,
       Print (nl ''## Bivariate and Multivariate Analysis''),
       Print ''Exploring relationships between variables.'',
       Show \<lparr>plot = BoxPlot ''y'' ''age'',
             title = ''Age Distribution by Subscription Status''\<rparr>,
       Show \<lparr>plot = CountPlotH ''job'' (Some ''y''),
             title = ''Subscription Status by Job Category''\<rparr>,
       Show \<lparr>plot = Heatmap (numerical_cols t) (correlation_matrix t)
                      (annotations (correlation_matrix t)),
             title = ''Correlation Heatmap of Numerical Features''\<rparr>,
       Show \<lparr>plot = BoxPlot ''y'' ''duration'',
             title = ''Call Duration by Subscription Status''\<rparr>],
      Inr t)"
proof -
  from assms have m: "''age'' \<in> set (columns t)" "''job'' \<in> set (columns t)"
    "''duration'' \<in> set (columns t)" "''y'' \<in> set (columns t)"
    and y: "set (column t ''y'') \<subseteq> {Num 0, Num 1, NaN}"
    by (simp_all add: valid_cleaned_def)
  from get_col_member [OF m(1)] obtain a where a: "get_col t ''age'' = Inr a" ..
  from get_col_member [OF m(2)] obtain j where j: "get_col t ''job'' = Inr j" ..
  have "''y'' \<in> set (numerical_cols t)"
    using column_member_numeric [OF m(4) cleaned_is_number [OF y]] .
  then have n: "numerical_cols t \<noteq> []" by auto
  have c1: "chart_target t = Inr \<lparr>plot = CountPlot ''y'',
      title = ''Distribution of the Target Variable (Subscribed to Term Deposit)''\<rparr>"
    using m by (simp add: chart_target_def)
  have c2: "chart_age t = Inr \<lparr>plot = HistPlot ''age'' 30, title = ''Distribution of Age''\<rparr>"
    by (simp add: chart_age_def a)
  have c3: "chart_job t =
      Inr \<lparr>plot = CountPlotH ''job'' None, title = ''Distribution of Job Categories''\<rparr>"
    by (simp add: chart_job_def j)
  have c4: "chart_age_by_target t = Inr \<lparr>plot = BoxPlot ''y'' ''age'',
      title = ''Age Distribution by Subscription Status''\<rparr>"
    using m by (simp add: chart_age_by_target_def)
  have c5: "chart_job_by_target t = Inr \<lparr>plot = CountPlotH ''job'' (Some ''y''),
      title = ''Subscription Status by Job Category''\<rparr>"
    using m by (simp add: chart_job_by_target_def j)
  have c6: "chart_heatmap t = Inr \<lparr>plot = Heatmap (numerical_cols t) (correlation_matrix t)
      (annotations (correlation_matrix t)),
      title = ''Correlation Heatmap of Numerical Features''\<rparr>"
    using n by (simp add: chart_heatmap_def)
  have c7: "chart_duration_by_target t = Inr \<lparr>plot = BoxPlot ''y'' ''duration'',
      title = ''Call Duration by Subscription Status''\<rparr>"
    using m by (simp add: chart_duration_by_target_def)
  show ?thesis
    by (simp add: visualizer_def c1 c2 c3 c4 c5 c6 c7 show_chart_def read_only_def)
qed

text \<open>
  Claim C8. On every valid cleaned frame the Visualizer shows exactly seven charts, in
  this order: count plot of \<^verbatim>\<open>y\<close>, histogram of \<^verbatim>\<open>age\<close>, count plot of \<^verbatim>\<open>job\<close>, box plot of
  \<^verbatim>\<open>age\<close> by \<^verbatim>\<open>y\<close>, count plot of \<^verbatim>\<open>job\<close> split by \<^verbatim>\<open>y\<close>, correlation heatmap of the numeric
  columns, box plot of \<^verbatim>\<open>duration\<close> by \<^verbatim>\<open>y\<close>; and it hands the frame on as it received it.
\<close>

theorem visualizer_seven_charts:
  assumes "valid_cleaned t"
  shows "\<exists>es. visualizer t = (es, Inr t) \<and> length (shown es) = 7 \<and>
           shown es =
             [\<lparr>plot = CountPlot ''y'',
               title = ''Distribution of the Target Variable (Subscribed to Term Deposit)''\<rparr>,
              \<lparr>plot = HistPlot ''age'' 30, title = ''Distribution of Age''\<rparr>,
              \<lparr>plot = CountPlotH ''job'' None, title = ''Distribution of Job Categories''\<rparr>,
              \<lparr>plot = BoxPlot ''y'' ''age'',
               title = ''Age Distribution by Subscription Status''\<rparr>,
              \<lparr>plot = CountPlotH ''job'' (Some ''y''),
               title = ''Subscription Status by Job Category''\<rparr>,
              \<lparr>plot = Heatmap (numerical_cols t) (correlation_matrix t)
                        (annotations (correlation_matrix t)),
               title = ''Correlation Heatmap of Numerical Features''\<rparr>,
              \<lparr>plot = BoxPlot ''y'' ''duration'',
               title = ''Call Duration by Subscription Status''\<rparr>]"
  by (simp add: visualizer_valid [OF assms])

theorem visualizer_seven_charts_witness:
  "valid_cleaned two_rows \<and> column two_rows ''y'' = [Num 1, Num 0] \<and>
   (\<exists>es. visualizer two_rows = (es, Inr two_rows) \<and> length (shown es) = 7 \<and>
      map title (shown es) =
        [''Distribution of the Target Variable (Subscribed to Term Deposit)'',
         ''Distribution of Age'', ''Distribution of Job Categories'',
         ''Age Distribution by Subscription Status'',
         ''Subscription Status by Job Category'',
         ''Correlation Heatmap of Numerical Features'',
         ''Call Duration by Subscription Status''])"
proof -
  have y: "column two_rows ''y'' = [Num 1, Num 0]"
    by (simp add: column_def get_col_def two_rows_def)
  have a: "column two_rows ''age'' = [Num 30, Num 41]"
    by (simp add: column_def get_col_def two_rows_def)
  have d: "column two_rows ''duration'' = [Num 100, Num 250]"
    by (simp add: column_def get_col_def two_rows_def)
  have v: "valid_cleaned two_rows"
    unfolding valid_cleaned_def y a d
    by (simp add: wf_table_def is_number_def two_rows_def)
  from visualizer_seven_charts [OF v] obtain es
    where "visualizer two_rows = (es, Inr two_rows)" "length (shown es) = 7"
      and s: "shown es =
             [\<lparr>plot = CountPlot ''y'',
               title = ''Distribution of the Target Variable (Subscribed to Term Deposit)''\<rparr>,
              \<lparr>plot = HistPlot ''age'' 30, title = ''Distribution of Age''\<rparr>,
              \<lparr>plot = CountPlotH ''job'' None, title = ''Distribution of Job Categories''\<rparr>,
              \<lparr>plot = BoxPlot ''y'' ''age'',
               title = ''Age Distribution by Subscription Status''\<rparr>,
              \<lparr>plot = CountPlotH ''job'' (Some ''y''),
               title = ''Subscription Status by Job Category''\<rparr>,
              \<lparr>plot = Heatmap (numerical_cols two_rows) (correlation_matrix two_rows)
                        (annotations (correlation_matrix two_rows)),
               title = ''Correlation Heatmap of Numerical Features''\<rparr>,
              \<lparr>plot = BoxPlot ''y'' ''duration'',
               title = ''Call Duration by Subscription Status''\<rparr>]"
    by blast
  then show ?thesis using v y by (intro conjI exI [of _ es]) simp_all
qed

section \<open>The correlation matrix\<close>



















section \<open>The whole run\<close>

lemma then_stage_snd: "snd m = Inr t \<Longrightarrow> snd (then_stage m f) = snd (f t)"
  by (cases m) (simp add: then_stage_def split: prod.splits)

lemma inspector_sample:
  "snd (inspector sample) =
     Inr \<lparr>columns = [''age'', ''job'', ''poutcome'', ''duration'', ''y''],
          rows = [[Num 30, Str ''admin.'', Str ''nonexistent'', Num 100, Str ''yes''],
                  [Num 41, Str ''retired'', Str ''success'', Num 250, Str ''no''],
                  [Num 52, Str ''student'', Str ''failure'', Num 90, Str ''unknown'']]\<rparr>"
proof -
  have h: "has_object sample" by (simp add: has_object_def sample_def)
  have "snd (remove_duplicates sample) =
     \<lparr>columns = [''age'', ''job'', ''poutcome'', ''duration'', ''y''],
          rows = [[Num 30, Str ''admin.'', Str ''nonexistent'', Num 100, Str ''yes''],
                  [Num 41, Str ''retired'', Str ''success'', Num 250, Str ''no''],
                  [Num 52, Str ''student'', Str ''failure'', Num 90, Str ''unknown'']]\<rparr>"
    by (simp add: remove_duplicates_table unmarked_def sample_def)
  with inspector_table [OF h] show ?thesis by auto
qed

lemma cleaner_sample:
  "cleaner \<lparr>columns = [''age'', ''job'', ''poutcome'', ''duration'', ''y''],
          rows = [[Num 30, Str ''admin.'', Str ''nonexistent'', Num 100, Str ''yes''],
                  [Num 41, Str ''retired'', Str ''success'', Num 250, Str ''no''],
                  [Num 52, Str ''student'', Str ''failure'', Num 90, Str ''unknown'']]\<rparr>
   = Inr sample_cleaned"
  by (simp add: cleaner_def get_col_def set_col_def series_replace_def series_map_def
      y_dict_def sample_cleaned_def)

lemma cleaner_stage_snd: "snd (cleaner_stage t) = cleaner t"
  by (simp add: cleaner_stage_def split: sum.splits)

lemma valid_sample_cleaned: "valid_cleaned sample_cleaned"
  by (simp add: valid_cleaned_def wf_table_def column_def get_col_def is_number_def
      sample_cleaned_def)

lemma reporter_snd: "statement1 t = Inr s \<Longrightarrow> snd (reporter t) = Inr t"
  by (simp add: reporter_def print_text_def read_only_def)

lemma analysis_sample: "snd (analysis sample) = Inr sample_cleaned"
proof -
  have y: "get_col sample_cleaned ''y'' = Inr [Num 1, Num 0, NaN]"
    by (simp add: get_col_def sample_cleaned_def)
  have "\<exists>s. statement1 sample_cleaned = Inr s"
    using statement1_cleaned [OF y] by simp
  then have r: "snd (reporter sample_cleaned) = Inr sample_cleaned"
    using reporter_snd by blast
  have v: "snd (visualizer sample_cleaned) = Inr sample_cleaned"
    by (simp add: visualizer_valid [OF valid_sample_cleaned])
  have c: "snd (then_stage (inspector sample) cleaner_stage) = Inr sample_cleaned"
    by (simp add: then_stage_snd [OF inspector_sample] cleaner_stage_snd cleaner_sample)
  show ?thesis
    unfolding analysis_def
    by (simp add: then_stage_snd [OF then_stage_snd [OF c, of visualizer, unfolded v]] r)
qed

lemma main_completed: "snd (analysis df) = Inr t \<Longrightarrow> fs csv_name = Some df \<Longrightarrow>
    snd (main fs) = Completed"
  by (cases "analysis df") (simp add: main_def)

text \<open>
  Claim C2, as amended. When the file \<^verbatim>\<open>bank-additional-full.csv\<close> is absent the run prints
  the two diagnostic lines, which name the file and give the download link, and ends
  there by \<^verbatim>\<open>exit()\<close>: nothing else is printed and no chart is shown. The run does not reach
  the end of the script, but \<^verbatim>\<open>exit()\<close> is called without a code, so the exit status is 0,
  the same as that of a run that completes.
\<close>

theorem loader_missing_file:
  assumes "fs csv_name = None"
  shows "main fs =
           ([Print missing_file_message, Print (''Link: '' @ download_link)],
            SystemExit None) \<and>
         sublist csv_name missing_file_message \<and>
         shown (fst (main fs)) = [] \<and>
         snd (main fs) \<noteq> Completed \<and>
         exit_status (snd (main fs)) = 0 \<and>
         exit_status (snd (main fs)) = exit_status Completed"
proof -
  have "missing_file_message = (''Error: The '' @ [CHR 0x27]) @ csv_name @
      (CHR 0x27 # '' file was not found. Please download the dataset from the UCI Machine Learning Repository and place it in the same directory.'')"
    by (simp add: missing_file_message_def csv_name_def)
  then have "sublist csv_name missing_file_message"
    unfolding sublist_def by blast
  then show ?thesis
    using assms by (simp add: main_def)
qed

theorem loader_missing_file_witness:
  "[''bank-full.csv'' \<mapsto> sample] csv_name = None \<and>
   main [''bank-full.csv'' \<mapsto> sample] =
     ([Print missing_file_message, Print (''Link: '' @ download_link)], SystemExit None) \<and>
   exit_status (snd (main [''bank-full.csv'' \<mapsto> sample])) = 0"
proof -
  have e: "[''bank-full.csv'' \<mapsto> sample] csv_name = None"
    by (simp add: csv_name_def)
  from loader_missing_file [of "[''bank-full.csv'' \<mapsto> sample]", OF e] e show ?thesis by simp
qed

theorem loader_missing_file_counterexample:
  "snd (main [csv_name \<mapsto> sample]) = Completed \<and>
   exit_status (snd (main Map.empty)) = exit_status (snd (main [csv_name \<mapsto> sample])) \<and>
   exit_status (snd (main Map.empty)) = 0"
proof -
  have c: "snd (main [csv_name \<mapsto> sample]) = Completed"
    by (rule main_completed [OF analysis_sample]) simp
  have "snd (main Map.empty) = SystemExit None"
    by (simp add: main_def)
  with c show ?thesis by simp
qed

end
